theory Spec2Isabelle
  imports Complex_Main
begin

unbundle bit_operations_syntax

section \<open>DiceFS: the randomized filesystem of \<^verbatim>\<open>exist.py\<close>\<close>

text \<open>
  The class \<^verbatim>\<open>Exist\<close> answers four filesystem operations (\<^verbatim>\<open>access\<close>,
  \<^verbatim>\<open>getattr\<close>, \<^verbatim>\<open>readdir\<close>, \<^verbatim>\<open>statfs\<close>) from a private existence test
  \<^verbatim>\<open>_exists\<close> and from draws on Python's module-level random source. The handlers are
  embedded below as functions that take the state of the outside world and return it
  updated; a raised \<^verbatim>\<open>FuseOSError(code)\<close> is the value \<open>Inl code\<close>.
  A leading underscore of a Python name is written \<open>p_\<close>.
\<close>

subsection \<open>Python values\<close>

text \<open>
  A Python float is a binary64 number: a finite value (kept as the rational it denotes,
  both zeros being \<open>Fin 0\<close>), an infinity, or a NaN.
\<close>

datatype pyfloat = Fin rat | PosInf | NegInf | NaN

text \<open>The comparison \<^verbatim>\<open>a <= b\<close> of two floats: false as soon as a NaN is involved.\<close>

fun fle :: "pyfloat \<Rightarrow> pyfloat \<Rightarrow> bool" where
  "fle NaN _ = False"
| "fle _ NaN = False"
| "fle NegInf _ = True"
| "fle _ PosInf = True"
| "fle (Fin a) (Fin b) = (a \<le> b)"
| "fle PosInf _ = False"
| "fle _ NegInf = False"

datatype pyval = PyInt int | PyFloat pyfloat

datatype errno = EACCES | ENOENT | ENOSYS

subsection \<open>The library the handlers call\<close>

text \<open>
  What the handlers use of the Python runtime without defining it is a parameter of the
  model, so that every theorem holds whatever these functions compute:
  \<^item> \<open>float_of_str\<close> is the builtin \<^verbatim>\<open>float\<close> on a string, \<open>None\<close> standing for the
    \<^verbatim>\<open>ValueError\<close> of a string that is no float literal;
  \<^item> \<open>str_of_float\<close> is the builtin \<^verbatim>\<open>str\<close> on a float;
  \<^item> \<open>fl_uniform a b r\<close> is the binary64 result of \<^verbatim>\<open>a + (b - a) * r\<close>, the
    arithmetic of \<^verbatim>\<open>random.uniform\<close>;
  \<^item> \<open>getuid\<close> and \<open>getgid\<close> are the results of \<^verbatim>\<open>os.getuid()\<close> and
    \<^verbatim>\<open>os.getgid()\<close>, the real user and group id of the process.
\<close>

record env =
  float_of_str :: "string \<Rightarrow> pyfloat option"
  str_of_float :: "pyfloat \<Rightarrow> string"
  fl_uniform :: "rat \<Rightarrow> rat \<Rightarrow> rat \<Rightarrow> rat"
  getuid :: int
  getgid :: int

text \<open>
  The state outside the handlers. The random source is the sequence of raw outputs it
  produces together with the number of calls made on it so far: each call of
  \<^verbatim>\<open>random.random\<close>, \<^verbatim>\<open>random.randint\<close> or \<^verbatim>\<open>random.uniform\<close> consumes
  the next output. The clock is the sequence of readings that the successive calls of
  \<^verbatim>\<open>time.time\<close> see, with the number of readings made so far.
\<close>

record world =
  rnd_seq :: "nat \<Rightarrow> nat"
  rnd_pos :: nat
  clk_seq :: "nat \<Rightarrow> rat"
  clk_pos :: nat

text \<open>The raw output that the next call on the random source consumes.\<close>

definition raw :: "world \<Rightarrow> nat" where
  "raw w = rnd_seq w (rnd_pos w)"

text \<open>The state after one call on the random source.\<close>

definition draw :: "world \<Rightarrow> world" where
  "draw w = w\<lparr>rnd_pos := Suc (rnd_pos w)\<rparr>"

text \<open>
  \<^verbatim>\<open>random.random()\<close>: the next float in \<open>[0.0, 1.0)\<close>, a multiple of \<open>2\<^sup>-\<^sup>5\<^sup>3\<close>.
\<close>

definition py_random :: "world \<Rightarrow> rat \<times> world" where
  "py_random w = (of_nat (raw w mod 2 ^ 53) / 2 ^ 53, draw w)"

text \<open>
  \<^verbatim>\<open>random.randint(a, b)\<close>: an integer \<open>N\<close> with \<open>a \<le> N \<le> b\<close>, both ends
  included (called here with \<open>a \<le> b\<close> only).
\<close>

definition py_randint :: "int \<Rightarrow> int \<Rightarrow> world \<Rightarrow> int \<times> world" where
  "py_randint a b w = (a + int (raw w) mod (b - a + 1), draw w)"

text \<open>\<^verbatim>\<open>random.uniform(a, b)\<close> is \<^verbatim>\<open>a + (b - a) * self.random()\<close>.\<close>

definition py_uniform :: "env \<Rightarrow> rat \<Rightarrow> rat \<Rightarrow> world \<Rightarrow> rat \<times> world" where
  "py_uniform e a b w = (let (r, w') = py_random w in (fl_uniform e a b r, w'))"

text \<open>\<^verbatim>\<open>time.time()\<close>: the next reading of the clock.\<close>

definition time_time :: "world \<Rightarrow> rat \<times> world" where
  "time_time w = (clk_seq w (clk_pos w), w\<lparr>clk_pos := Suc (clk_pos w)\<rparr>)"

text \<open>The constants \<^verbatim>\<open>os.W_OK\<close> and \<^verbatim>\<open>stat.S_IFDIR\<close> (octal 040000).\<close>

definition W_OK :: int where
  "W_OK = 2"

definition S_IFDIR :: int where
  "S_IFDIR = 16384"

subsection \<open>The handlers of the class\<close>

text \<open>
  \<^verbatim>\<open>_exists(self, path)\<close>: the two fixed directories exist; a path outside
  \<^verbatim>\<open>/exist/\<close>, a name that is no float, and a float outside \<open>[0, 1]\<close> do not; for any
  other name one value is drawn and compared with the probability.
\<close>

definition p_exists :: "env \<Rightarrow> string \<Rightarrow> world \<Rightarrow> bool \<times> world" where
  "p_exists e path w =
     (if path \<in> set [''/'', ''/exist''] then (True, w)
      else if take 7 path \<noteq> ''/exist/'' then (False, w)
      else (case float_of_str e (drop 7 path) of
              None \<Rightarrow> (False, w)
            | Some probability \<Rightarrow>
                if \<not> (fle (Fin 0) probability \<and> fle probability (Fin 1)) then (False, w)
                else (let (rand, w') = py_random w
                      in (fle (Fin rand) probability, w'))))"

text \<open>\<^verbatim>\<open>_size(self)\<close> is \<^verbatim>\<open>random.randint(0, 2**30)\<close>.\<close>

definition p_size :: "world \<Rightarrow> int \<times> world" where
  "p_size w = py_randint 0 (2 ^ 30) w"

text \<open>\<^verbatim>\<open>_timestamp(self)\<close> is \<^verbatim>\<open>random.uniform(0, time.time())\<close>.\<close>

definition p_timestamp :: "env \<Rightarrow> world \<Rightarrow> pyfloat \<times> world" where
  "p_timestamp e w =
     (let (now, w1) = time_time w;
          (t, w2) = py_uniform e 0 now w1
      in (Fin t, w2))"

text \<open>
  \<^verbatim>\<open>access(self, path, mode)\<close> returns \<^verbatim>\<open>None\<close> (here \<open>Inr ()\<close>) or raises
  \<^verbatim>\<open>FuseOSError(EACCES)\<close>. The test \<^verbatim>\<open>mode & os.W_OK\<close> is the truth value of a
  Python integer: it holds when the conjunction is not zero.
\<close>

definition access :: "env \<Rightarrow> string \<Rightarrow> int \<Rightarrow> world \<Rightarrow> (errno + unit) \<times> world" where
  "access e path mode w =
     (if path \<in> set [''/'', ''/exist''] then (Inr (), w)
      else if mode AND W_OK \<noteq> 0 then (Inl EACCES, w)
      else (let (ex, w') = p_exists e path w
            in if \<not> ex then (Inl EACCES, w') else (Inr (), w')))"

text \<open>
  \<^verbatim>\<open>getattr(self, path, fh=None)\<close> raises \<^verbatim>\<open>FuseOSError(ENOENT)\<close> when the path
  does not exist right now, and otherwise builds the dictionary of attributes, its
  entries evaluated from the first to the last. A dictionary is the list of its items in
  insertion order.
\<close>

definition getattr ::
  "env \<Rightarrow> string \<Rightarrow> int option \<Rightarrow> world \<Rightarrow> (errno + (string \<times> pyval) list) \<times> world" where
  "getattr e path fh w =
     (let (ex, w0) = p_exists e path w
      in if \<not> ex then (Inl ENOENT, w0)
         else (let mode = S_IFDIR OR 509;
                   (atime, w1) = p_timestamp e w0;
                   (ctime, w2) = p_timestamp e w1;
                   (mtime, w3) = p_timestamp e w2;
                   (size, w4) = p_size w3
               in (Inr [(''st_atime'', PyFloat atime),
                        (''st_ctime'', PyFloat ctime),
                        (''st_mtime'', PyFloat mtime),
                        (''st_gid'', PyInt (getgid e)),
                        (''st_uid'', PyInt (getuid e)),
                        (''st_mode'', PyInt mode),
                        (''st_nlink'', PyInt 1),
                        (''st_size'', PyInt size)], w4)))"

text \<open>\<^verbatim>\<open>readdir(self, path, fh)\<close>.\<close>

definition readdir :: "env \<Rightarrow> string \<Rightarrow> int \<Rightarrow> world \<Rightarrow> string list \<times> world" where
  "readdir e path fh w =
     (if path = ''/'' then ([''.'', ''..'', ''exist''], w)
      else (let (r, w') = py_random w
            in ([''.'', ''..'', str_of_float e (Fin r)], w')))"

text \<open>
  \<^verbatim>\<open>statfs(self, path)\<close> builds a dictionary from a generator that calls
  \<^verbatim>\<open>_size\<close> once for each key, in the order of the tuple of keys.
\<close>

fun statfs_items :: "string list \<Rightarrow> world \<Rightarrow> (string \<times> int) list \<times> world" where
  "statfs_items [] w = ([], w)"
| "statfs_items (key # keys) w =
     (let (v, w1) = p_size w;
          (rest, w2) = statfs_items keys w1
      in ((key, v) # rest, w2))"

definition statfs_keys :: "string list" where
  "statfs_keys = [''f_bavail'', ''f_bfree'', ''f_blocks'', ''f_bsize'', ''f_favail'',
     ''f_ffree'', ''f_files'', ''f_flag'', ''f_frsize'', ''f_namemax'']"

definition statfs :: "env \<Rightarrow> string \<Rightarrow> world \<Rightarrow> (string \<times> int) list \<times> world" where
  "statfs e path w = statfs_items statfs_keys w"

subsection \<open>The operation table\<close>

text \<open>
  Below its four methods the class sets the attribute of every other operation it names
  to \<^verbatim>\<open>None\<close> (\<^verbatim>\<open>chmod = None\<close> down to \<^verbatim>\<open>write = None\<close>). A request is
  an operation with the arguments the handlers read; \<open>Exist_attr\<close> is the attribute of
  the class under the operation's name, with the arguments of the request supplied.
  The override of \<^verbatim>\<open>__call__\<close> prints the call and its result and returns what the
  inherited dispatch returns; printing is not modelled.
\<close>

datatype reply =
  RNone
| RAttr "(string \<times> pyval) list"
| RNames "string list"
| RStat "(string \<times> int) list"

datatype request =
  Access string int
| Getattr string "int option"
| Readdir string int
| Statfs string
| Chmod | Chown | Create | Flush | Fsync | Getxattr | Link | Listxattr | Mkdir | Mknod
| Open | Read | Readlink | Release | Rename | Rmdir | Symlink | Truncate | Unlink
| Utimens | Write

fun Exist_attr :: "request \<Rightarrow> (env \<Rightarrow> world \<Rightarrow> (errno + reply) \<times> world) option" where
  "Exist_attr (Access path mode) =
     Some (\<lambda>e w. apfst (map_sum id (\<lambda>u. RNone)) (access e path mode w))"
| "Exist_attr (Getattr path fh) =
     Some (\<lambda>e w. apfst (map_sum id RAttr) (getattr e path fh w))"
| "Exist_attr (Readdir path fh) =
     Some (\<lambda>e w. apfst (\<lambda>names. Inr (RNames names)) (readdir e path fh w))"
| "Exist_attr (Statfs path) =
     Some (\<lambda>e w. apfst (\<lambda>d. Inr (RStat d)) (statfs e path w))"
| "Exist_attr Chmod = None"
| "Exist_attr Chown = None"
| "Exist_attr Create = None"
| "Exist_attr Flush = None"
| "Exist_attr Fsync = None"
| "Exist_attr Getxattr = None"
| "Exist_attr Link = None"
| "Exist_attr Listxattr = None"
| "Exist_attr Mkdir = None"
| "Exist_attr Mknod = None"
| "Exist_attr Open = None"
| "Exist_attr Read = None"
| "Exist_attr Readlink = None"
| "Exist_attr Release = None"
| "Exist_attr Rename = None"
| "Exist_attr Rmdir = None"
| "Exist_attr Symlink = None"
| "Exist_attr Truncate = None"
| "Exist_attr Unlink = None"
| "Exist_attr Utimens = None"
| "Exist_attr Write = None"

text \<open>
  Modelled from the spec: the host filesystem binding (the \<^verbatim>\<open>fuse\<close> module that the
  file imports; its code is not part of the repository). The specification says that
  the binding routes each operation to the core's handler and surfaces an operation the
  core declares unsupported as an ``operation not implemented'' failure (the
  \<^verbatim>\<open>ENOSYS\<close>-equivalent), the core performing no work.
\<close>

definition fuse_call :: "env \<Rightarrow> request \<Rightarrow> world \<Rightarrow> (errno + reply) \<times> world" where
  "fuse_call e req w =
     (case Exist_attr req of
        None \<Rightarrow> (Inl ENOSYS, w)
      | Some handler \<Rightarrow> handler e w)"

subsection \<open>A concrete environment\<close>

text \<open>
  The theorems below hold for every environment and every state. To run the handlers
  on examples, \<open>env0\<close> fixes the library functions on the arguments the examples use:
  the values of \<^verbatim>\<open>float\<close> on a few literals (and its \<^verbatim>\<open>ValueError\<close> elsewhere, of
  which the examples use only \<^verbatim>\<open>'abc'\<close>), the \<^verbatim>\<open>str\<close> of \<open>0.0\<close> and \<open>0.5\<close>,
  exact arithmetic for \<^verbatim>\<open>uniform\<close>, user id 1000 and group id 100. The state
  \<open>world0 k\<close> has a random source whose every raw output is \<open>k\<close> and a clock that
  advances by one second at each reading; \<open>world_seq xs\<close> has the same clock and a
  random source whose raw outputs are the elements of \<open>xs\<close>, then zeros.
\<close>

definition float_sample :: "string \<Rightarrow> pyfloat option" where
  "float_sample = map_of [(''0'', Fin 0), (''0.0'', Fin 0), (''0.5'', Fin (1 / 2)),
     (''1'', Fin 1), (''1.0'', Fin 1), (''2'', Fin 2),
     (''-0.1'', Fin (- 3602879701896397 / 2 ^ 55)), (''nan'', NaN)]"

definition str_sample :: "pyfloat \<Rightarrow> string" where
  "str_sample x = (if x = Fin 0 then ''0.0'' else if x = Fin (1 / 2) then ''0.5'' else [])"

definition env0 :: env where
  "env0 = \<lparr>float_of_str = float_sample, str_of_float = str_sample,
     fl_uniform = (\<lambda>a b r. a + (b - a) * r), getuid = 1000, getgid = 100\<rparr>"

definition world0 :: "nat \<Rightarrow> world" where
  "world0 k = \<lparr>rnd_seq = (\<lambda>i. k), rnd_pos = 0,
     clk_seq = (\<lambda>i. 1700000000 + of_nat i), clk_pos = 0\<rparr>"

definition world_seq :: "nat list \<Rightarrow> world" where
  "world_seq xs = \<lparr>rnd_seq = (\<lambda>i. if i < length xs then xs ! i else 0), rnd_pos = 0,
     clk_seq = (\<lambda>i. 1700000000 + of_nat i), clk_pos = 0\<rparr>"

section \<open>Properties\<close>

subsection \<open>Facts about the library and the helpers\<close>

lemma py_random_range: "0 \<le> fst (py_random w) \<and> fst (py_random w) < 1"
proof -
  have "raw w mod 2 ^ 53 < (2::nat) ^ 53"
    by simp
  then have "(of_nat (raw w mod 2 ^ 53) :: rat) < of_nat (2 ^ 53)"
    by (simp only: of_nat_less_iff)
  then show ?thesis
    by (simp add: py_random_def)
qed

lemma draw_changes: "draw w \<noteq> w"
proof
  assume "draw w = w"
  then have "rnd_pos (draw w) = rnd_pos w"
    by simp
  then show False
    by (simp add: draw_def)
qed

lemma p_size_range: "0 \<le> fst (p_size w) \<and> fst (p_size w) \<le> 2 ^ 30"
proof -
  have "0 \<le> int (raw w) mod (2 ^ 30 + 1)"
    by simp
  moreover have "int (raw w) mod (2 ^ 30 + 1) < 2 ^ 30 + 1"
    by simp
  ultimately show ?thesis
    by (simp add: p_size_def py_randint_def)
qed

text \<open>The existence test, case by case.\<close>

lemma entry_not_fixed_dir: "take 7 path = ''/exist/'' \<Longrightarrow> path \<notin> set [''/'', ''/exist'']"
  by auto

lemma p_exists_fixed: "path \<in> set [''/'', ''/exist''] \<Longrightarrow> p_exists e path w = (True, w)"
  by (simp add: p_exists_def)

lemma p_exists_entry:
  assumes "take 7 path = ''/exist/''"
    and "float_of_str e (drop 7 path) = Some (Fin p)"
    and "0 \<le> p" and "p \<le> 1"
  shows "p_exists e path w = (fst (py_random w) \<le> p, draw w)"
proof -
  from assms(1) have "path \<notin> set [''/'', ''/exist'']"
    by (rule entry_not_fixed_dir)
  with assms show ?thesis
    by (simp add: p_exists_def py_random_def)
qed

lemma in_unit_iff: "(fle (Fin 0) x \<and> fle x (Fin 1)) = (\<exists>p. x = Fin p \<and> 0 \<le> p \<and> p \<le> 1)"
  by (cases x) auto

lemma p_exists_no_entry:
  assumes "\<not> (take 7 path = ''/exist/''
              \<and> (\<exists>p. float_of_str e (drop 7 path) = Some (Fin p) \<and> 0 \<le> p \<and> p \<le> 1))"
  shows "snd (p_exists e path w) = w"
proof (cases "float_of_str e (drop 7 path)")
  case None
  then show ?thesis
    by (simp add: p_exists_def)
next
  case (Some x)
  show ?thesis
  proof (cases "take 7 path = ''/exist/''")
    case True
    with assms Some have "\<not> (\<exists>p. x = Fin p \<and> 0 \<le> p \<and> p \<le> 1)"
      by simp
    then have "\<not> (fle (Fin 0) x \<and> fle x (Fin 1))"
      by (simp add: in_unit_iff)
    with Some show ?thesis
      by (simp add: p_exists_def)
  next
    case False
    then show ?thesis
      by (simp add: p_exists_def)
  qed
qed

text \<open>
  The result of \<open>getattr\<close> with the intermediate states named: \<open>w0\<close> after the
  existence test, \<open>w1\<close>, \<open>w2\<close>, \<open>w3\<close> after the three timestamps.
\<close>

lemma getattr_result:
  assumes "w0 = snd (p_exists e path w)" and "w1 = snd (p_timestamp e w0)"
    and "w2 = snd (p_timestamp e w1)" and "w3 = snd (p_timestamp e w2)"
  shows "getattr e path fh w =
     (if fst (p_exists e path w)
      then (Inr [(''st_atime'', PyFloat (fst (p_timestamp e w0))),
                 (''st_ctime'', PyFloat (fst (p_timestamp e w1))),
                 (''st_mtime'', PyFloat (fst (p_timestamp e w2))),
                 (''st_gid'', PyInt (getgid e)),
                 (''st_uid'', PyInt (getuid e)),
                 (''st_mode'', PyInt (S_IFDIR OR 509)),
                 (''st_nlink'', PyInt 1),
                 (''st_size'', PyInt (fst (p_size w3)))], snd (p_size w3))
      else (Inl ENOENT, w0))"
  by (simp add: assms getattr_def split_beta Let_def)

text \<open>The items of \<open>statfs\<close>: one for each key, each value a size.\<close>

lemma statfs_items_keys: "map fst (fst (statfs_items keys w)) = keys"
  by (induction keys arbitrary: w) (simp_all add: split_beta Let_def)

lemma statfs_items_range:
  "(k, v) \<in> set (fst (statfs_items keys w)) \<Longrightarrow> 0 \<le> v \<and> v \<le> 2 ^ 30"
proof (induction keys arbitrary: w)
  case Nil
  then show ?case
    by simp
next
  case (Cons key keys)
  from Cons.prems have "(k, v) = (key, fst (p_size w))
      \<or> (k, v) \<in> set (fst (statfs_items keys (snd (p_size w))))"
    by (simp add: split_beta Let_def)
  then show ?case
  proof
    assume "(k, v) = (key, fst (p_size w))"
    then have "v = fst (p_size w)"
      by simp
    with p_size_range [of w] show ?thesis
      by simp
  next
    assume "(k, v) \<in> set (fst (statfs_items keys (snd (p_size w))))"
    then show ?thesis
      by (rule Cons.IH)
  qed
qed

lemma map_of_present:
  "k \<in> set (map fst items) \<Longrightarrow> \<exists>v. map_of items k = Some v \<and> (k, v) \<in> set items"
  by (induction items) auto

text \<open>The definitions to unfold when a handler is run on a concrete input.\<close>

lemmas run_defs = getattr_def p_exists_def py_random_def py_randint_def p_size_def
  p_timestamp_def py_uniform_def time_time_def draw_def raw_def env0_def world0_def
  world_seq_def float_sample_def str_sample_def S_IFDIR_def statfs_def statfs_keys_def

subsection \<open>Access with write intent\<close>

text \<open>
  Claim C1, as amended. For every path other than \<^verbatim>\<open>/\<close> and \<^verbatim>\<open>/exist\<close> and every
  mode that includes \<^verbatim>\<open>W_OK\<close>, \<open>access\<close> fails with \<open>EACCES\<close> and leaves the state
  as it was. On \<^verbatim>\<open>/\<close> and \<^verbatim>\<open>/exist\<close> the test of the path comes first, and
  \<open>access\<close> succeeds for every mode, write intent included.
\<close>

theorem access_write_intent:
  assumes "mode AND W_OK \<noteq> 0"
  shows "(path \<notin> set [''/'', ''/exist''] \<longrightarrow> access e path mode w = (Inl EACCES, w))
       \<and> (path \<in> set [''/'', ''/exist''] \<longrightarrow> access e path mode w = (Inr (), w))"
  using assms by (simp add: access_def)

theorem access_write_intent_witness:
  "(2::int) AND W_OK \<noteq> 0
   \<and> access env0 ''/exist/0.5'' 2 (world0 0) = (Inl EACCES, world0 0)
   \<and> access env0 ''/exist'' 2 (world0 0) = (Inr (), world0 0)"
  using access_write_intent [of 2 "''/exist/0.5''" env0 "world0 0"]
    access_write_intent [of 2 "''/exist''" env0 "world0 0"]
  by (simp add: W_OK_def)

text \<open>
  The claim as written fails at the root: \<open>access\<close> on \<^verbatim>\<open>/\<close> with mode \<^verbatim>\<open>W_OK\<close>
  returns normally.
\<close>

theorem access_write_root_counterexample:
  "(2::int) AND W_OK \<noteq> 0 \<and> fst (access env0 ''/'' 2 (world0 0)) = Inr ()
   \<and> fst (access env0 ''/'' 2 (world0 0)) \<noteq> Inl EACCES"
  by (simp add: access_def W_OK_def)

subsection \<open>Sizes\<close>

text \<open>
  Claim C2, as amended. Every value of \<open>_size\<close> is an integer in the closed range
  \<open>[0, 2\<^sup>3\<^sup>0]\<close>, the upper end included: so is the \<open>st_size\<close> of every successful
  \<open>getattr\<close>, and \<open>statfs\<close> returns a value in that range under each of its ten keys.
\<close>

theorem size_in_closed_range:
  "0 \<le> fst (p_size w) \<and> fst (p_size w) \<le> 2 ^ 30
   \<and> (fst (getattr e path fh w) = Inr attr \<longrightarrow>
        (\<exists>n. map_of attr ''st_size'' = Some (PyInt n) \<and> 0 \<le> n \<and> n \<le> 2 ^ 30))
   \<and> map fst (fst (statfs e path w)) = statfs_keys
   \<and> length statfs_keys = 10
   \<and> (\<forall>k \<in> set statfs_keys.
        \<exists>v. map_of (fst (statfs e path w)) k = Some v \<and> 0 \<le> v \<and> v \<le> 2 ^ 30)"
proof -
  have size: "0 \<le> fst (p_size w) \<and> fst (p_size w) \<le> 2 ^ 30"
    by (rule p_size_range)
  have attr: "fst (getattr e path fh w) = Inr attr \<longrightarrow>
        (\<exists>n. map_of attr ''st_size'' = Some (PyInt n) \<and> 0 \<le> n \<and> n \<le> 2 ^ 30)"
  proof
    assume ok: "fst (getattr e path fh w) = Inr attr"
    show "\<exists>n. map_of attr ''st_size'' = Some (PyInt n) \<and> 0 \<le> n \<and> n \<le> 2 ^ 30"
    proof (cases "fst (p_exists e path w)")
      case False
      with ok show ?thesis
        by (simp add: getattr_def split_beta Let_def)
    next
      case True
      define w3 where
        "w3 = snd (p_timestamp e (snd (p_timestamp e (snd (p_timestamp e (snd (p_exists e path w)))))))"
      from True ok have "map_of attr ''st_size'' = Some (PyInt (fst (p_size w3)))"
        by (auto simp add: getattr_def split_beta Let_def w3_def)
      with p_size_range [of w3] show ?thesis
        by simp
    qed
  qed
  have keys: "map fst (fst (statfs e path w)) = statfs_keys"
    by (simp add: statfs_def statfs_items_keys)
  have len: "length statfs_keys = 10"
    by (simp add: statfs_keys_def)
  have vals: "\<forall>k \<in> set statfs_keys.
        \<exists>v. map_of (fst (statfs e path w)) k = Some v \<and> 0 \<le> v \<and> v \<le> 2 ^ 30"
  proof
    fix k
    assume "k \<in> set statfs_keys"
    with keys have "k \<in> set (map fst (fst (statfs e path w)))"
      by simp
    then have "\<exists>v. map_of (fst (statfs e path w)) k = Some v
        \<and> (k, v) \<in> set (fst (statfs e path w))"
      by (rule map_of_present)
    then obtain v where look: "map_of (fst (statfs e path w)) k = Some v"
      and mem: "(k, v) \<in> set (fst (statfs e path w))"
      by (elim exE conjE)
    from mem have "0 \<le> v \<and> v \<le> 2 ^ 30"
      unfolding statfs_def by (rule statfs_items_range)
    with look show "\<exists>v. map_of (fst (statfs e path w)) k = Some v \<and> 0 \<le> v \<and> v \<le> 2 ^ 30"
      by simp
  qed
  from size attr keys len vals show ?thesis
    by simp
qed

theorem size_in_closed_range_witness:
  "fst (getattr env0 ''/exist/1'' None (world_seq [7, 0, 0, 0, 4096])) =
     Inr [(''st_atime'', PyFloat (Fin 0)), (''st_ctime'', PyFloat (Fin 0)),
          (''st_mtime'', PyFloat (Fin 0)), (''st_gid'', PyInt 100), (''st_uid'', PyInt 1000),
          (''st_mode'', PyInt 16893), (''st_nlink'', PyInt 1), (''st_size'', PyInt 4096)]
   \<and> (0::int) \<le> 4096 \<and> (4096::int) \<le> 2 ^ 30
   \<and> ''f_bsize'' \<in> set statfs_keys
   \<and> map_of (fst (statfs env0 ''/'' (world0 5))) ''f_bsize'' = Some 5
   \<and> (0::int) \<le> 5 \<and> (5::int) \<le> 2 ^ 30"
proof -
  let ?attr = "[(''st_atime'', PyFloat (Fin 0)), (''st_ctime'', PyFloat (Fin 0)),
          (''st_mtime'', PyFloat (Fin 0)), (''st_gid'', PyInt 100), (''st_uid'', PyInt 1000),
          (''st_mode'', PyInt 16893), (''st_nlink'', PyInt 1), (''st_size'', PyInt 4096)]"
  have run: "fst (getattr env0 ''/exist/1'' None (world_seq [7, 0, 0, 0, 4096])) = Inr ?attr"
    by (simp add: run_defs)
  have key: "''f_bsize'' \<in> set statfs_keys"
    by (simp add: statfs_keys_def)
  from size_in_closed_range [of "world_seq [7, 0, 0, 0, 4096]" env0 "''/exist/1''" None ?attr]
    run
  have a: "(0::int) \<le> 4096 \<and> (4096::int) \<le> 2 ^ 30"
    by simp
  from size_in_closed_range [of "world0 5" env0 "''/''" None ?attr] key
  have b: "map_of (fst (statfs env0 ''/'' (world0 5))) ''f_bsize'' = Some 5
          \<and> (0::int) \<le> 5 \<and> (5::int) \<le> 2 ^ 30"
    by (simp add: run_defs)
  from run a key b show ?thesis
    by simp
qed

text \<open>
  The claim as written excludes \<open>2\<^sup>3\<^sup>0\<close>, which \<^verbatim>\<open>random.randint(0, 2**30)\<close> can
  return: \<open>_size\<close>, the \<open>st_size\<close> of \<open>getattr\<close> and a field of \<open>statfs\<close> all take
  that value when the random source produces it.
\<close>

theorem size_upper_end_counterexample:
  "fst (p_size (world0 (2 ^ 30))) = 2 ^ 30
   \<and> \<not> fst (p_size (world0 (2 ^ 30))) < 2 ^ 30
   \<and> fst (getattr env0 ''/'' None (world_seq [0, 0, 0, 2 ^ 30])) =
       Inr [(''st_atime'', PyFloat (Fin 0)), (''st_ctime'', PyFloat (Fin 0)),
            (''st_mtime'', PyFloat (Fin 0)), (''st_gid'', PyInt 100),
            (''st_uid'', PyInt 1000), (''st_mode'', PyInt 16893), (''st_nlink'', PyInt 1),
            (''st_size'', PyInt (2 ^ 30))]
   \<and> map_of (fst (statfs env0 ''/'' (world0 (2 ^ 30)))) ''f_bsize'' = Some (2 ^ 30)"
  by (simp add: run_defs)

subsection \<open>The existence test\<close>

text \<open>
  Claim C3. For a path that is neither \<^verbatim>\<open>/\<close> nor \<^verbatim>\<open>/exist\<close>: if it does not start
  with \<^verbatim>\<open>/exist/\<close>, or the rest of it is no float literal, or the float it denotes is
  not a number in \<open>[0, 1]\<close>, then \<open>_exists\<close> returns \<open>False\<close> in every state, and
  returns the state as it was: no value is drawn.
\<close>

theorem malformed_never_exists:
  assumes "path \<noteq> ''/''" and "path \<noteq> ''/exist''"
    and "take 7 path \<noteq> ''/exist/''
       \<or> float_of_str e (drop 7 path) = None
       \<or> (\<exists>x. float_of_str e (drop 7 path) = Some x
              \<and> \<not> (\<exists>p. x = Fin p \<and> 0 \<le> p \<and> p \<le> 1))"
  shows "p_exists e path w = (False, w)"
proof -
  from assms(1,2) have nofix: "path \<notin> set [''/'', ''/exist'']"
    by simp
  show ?thesis
  proof (cases "take 7 path = ''/exist/''")
    case False
    with nofix show ?thesis
      by (simp add: p_exists_def)
  next
    case True
    show ?thesis
    proof (cases "float_of_str e (drop 7 path)")
      case None
      with nofix show ?thesis
        by (simp add: p_exists_def)
    next
      case (Some x)
      with True assms(3) have "\<not> (\<exists>p. x = Fin p \<and> 0 \<le> p \<and> p \<le> 1)"
        by simp
      then have "\<not> (fle (Fin 0) x \<and> fle x (Fin 1))"
        by (simp add: in_unit_iff)
      with nofix Some show ?thesis
        by (simp add: p_exists_def)
    qed
  qed
qed

theorem malformed_never_exists_witness:
  "p_exists env0 ''/etc/passwd'' (world0 0) = (False, world0 0)
   \<and> p_exists env0 ''/exist/abc'' (world0 0) = (False, world0 0)
   \<and> p_exists env0 ''/exist/2'' (world0 0) = (False, world0 0)
   \<and> p_exists env0 ''/exist/-0.1'' (world0 0) = (False, world0 0)
   \<and> p_exists env0 ''/exist/nan'' (world0 0) = (False, world0 0)"
proof -
  have abc: "float_of_str env0 (drop 7 ''/exist/abc'') = None"
    by (simp add: env0_def float_sample_def)
  have two: "\<exists>x. float_of_str env0 (drop 7 ''/exist/2'') = Some x
               \<and> \<not> (\<exists>p. x = Fin p \<and> 0 \<le> p \<and> p \<le> 1)"
    by (simp add: env0_def float_sample_def)
  have neg: "\<exists>x. float_of_str env0 (drop 7 ''/exist/-0.1'') = Some x
               \<and> \<not> (\<exists>p. x = Fin p \<and> 0 \<le> p \<and> p \<le> 1)"
    by (simp add: env0_def float_sample_def)
  have nan: "\<exists>x. float_of_str env0 (drop 7 ''/exist/nan'') = Some x
               \<and> \<not> (\<exists>p. x = Fin p \<and> 0 \<le> p \<and> p \<le> 1)"
    by (simp add: env0_def float_sample_def)
  show ?thesis
    using malformed_never_exists [of "''/etc/passwd''" env0 "world0 0"]
      malformed_never_exists [of "''/exist/abc''" env0 "world0 0"] abc
      malformed_never_exists [of "''/exist/2''" env0 "world0 0"] two
      malformed_never_exists [of "''/exist/-0.1''" env0 "world0 0"] neg
      malformed_never_exists [of "''/exist/nan''" env0 "world0 0"] nan
    by simp
qed

text \<open>
  Claim C4. For a path \<^verbatim>\<open>/exist/<name>\<close> whose name denotes a number \<open>p\<close> in
  \<open>[0, 1]\<close>, \<open>_exists\<close> makes exactly one call on the random source, which gives a
  value \<open>r\<close> with \<open>0 \<le> r < 1\<close>, and returns \<open>r \<le> p\<close>. So for \<open>p = 1\<close> the result is
  \<open>True\<close> whatever is drawn, and for \<open>p = 0\<close> it is \<open>True\<close> only when \<open>r = 0\<close>.
\<close>

theorem entry_exists_by_one_draw:
  assumes "take 7 path = ''/exist/''"
    and "float_of_str e (drop 7 path) = Some (Fin p)"
    and "0 \<le> p" and "p \<le> 1"
  shows "p_exists e path w = (fst (py_random w) \<le> p, draw w)
       \<and> 0 \<le> fst (py_random w) \<and> fst (py_random w) < 1
       \<and> (p = 1 \<longrightarrow> fst (p_exists e path w))
       \<and> (p = 0 \<longrightarrow> (fst (p_exists e path w) \<longleftrightarrow> fst (py_random w) = 0))"
proof -
  have eq: "p_exists e path w = (fst (py_random w) \<le> p, draw w)"
    using assms by (rule p_exists_entry)
  have rng: "0 \<le> fst (py_random w) \<and> fst (py_random w) < 1"
    by (rule py_random_range)
  from eq rng have one: "p = 1 \<longrightarrow> fst (p_exists e path w)"
    by simp
  from eq rng have zero: "p = 0 \<longrightarrow> (fst (p_exists e path w) \<longleftrightarrow> fst (py_random w) = 0)"
    by auto
  from eq rng one zero show ?thesis
    by blast
qed

theorem entry_exists_by_one_draw_witness:
  "p_exists env0 ''/exist/0.5'' (world0 (2 ^ 52)) = (True, draw (world0 (2 ^ 52)))
   \<and> p_exists env0 ''/exist/0.5'' (world0 (2 ^ 52 + 1)) = (False, draw (world0 (2 ^ 52 + 1)))
   \<and> fst (p_exists env0 ''/exist/1'' (world0 (2 ^ 53 - 1)))
   \<and> fst (p_exists env0 ''/exist/1.0'' (world0 (2 ^ 53 - 1)))
   \<and> fst (p_exists env0 ''/exist/0'' (world0 0))
   \<and> \<not> fst (p_exists env0 ''/exist/0'' (world0 1))"
proof -
  have half: "float_of_str env0 (drop 7 ''/exist/0.5'') = Some (Fin (1 / 2))"
    by (simp add: env0_def float_sample_def)
  have one: "float_of_str env0 (drop 7 ''/exist/1'') = Some (Fin 1)"
    by (simp add: env0_def float_sample_def)
  have one': "float_of_str env0 (drop 7 ''/exist/1.0'') = Some (Fin 1)"
    by (simp add: env0_def float_sample_def)
  have zero: "float_of_str env0 (drop 7 ''/exist/0'') = Some (Fin 0)"
    by (simp add: env0_def float_sample_def)
  show ?thesis
    using entry_exists_by_one_draw [OF _ half, of "world0 (2 ^ 52)"]
      entry_exists_by_one_draw [OF _ half, of "world0 (2 ^ 52 + 1)"]
      entry_exists_by_one_draw [OF _ one, of "world0 (2 ^ 53 - 1)"]
      entry_exists_by_one_draw [OF _ one', of "world0 (2 ^ 53 - 1)"]
      entry_exists_by_one_draw [OF _ zero, of "world0 0"]
      entry_exists_by_one_draw [OF _ zero, of "world0 1"]
    by (simp add: py_random_def raw_def world0_def)
qed

text \<open>
  Claim C5. The paths \<^verbatim>\<open>/\<close> and \<^verbatim>\<open>/exist\<close> always exist: \<open>_exists\<close> returns
  \<open>True\<close> without a draw, \<open>getattr\<close> returns attributes and never \<open>ENOENT\<close>, and
  \<open>access\<close> without write intent succeeds without a draw, in every state.
\<close>

theorem fixed_dirs_always_exist:
  assumes "path = ''/'' \<or> path = ''/exist''"
  shows "p_exists e path w = (True, w)
       \<and> fst (getattr e path fh w) \<noteq> Inl ENOENT
       \<and> (\<exists>attr. fst (getattr e path fh w) = Inr attr)
       \<and> (mode AND W_OK = 0 \<longrightarrow> access e path mode w = (Inr (), w))"
proof -
  from assms have fixed: "path \<in> set [''/'', ''/exist'']"
    by auto
  then have ex: "p_exists e path w = (True, w)"
    by (rule p_exists_fixed)
  then have attr: "\<exists>attr. fst (getattr e path fh w) = Inr attr"
    by (simp add: getattr_def split_beta Let_def)
  then have "fst (getattr e path fh w) \<noteq> Inl ENOENT"
    by auto
  moreover from fixed have "access e path mode w = (Inr (), w)"
    by (simp add: access_def)
  ultimately show ?thesis
    using ex attr by blast
qed

theorem fixed_dirs_always_exist_witness:
  "p_exists env0 ''/exist'' (world0 7) = (True, world0 7)
   \<and> fst (getattr env0 ''/exist'' None (world0 7)) \<noteq> Inl ENOENT
   \<and> (4::int) AND W_OK = 0
   \<and> access env0 ''/exist'' 4 (world0 7) = (Inr (), world0 7)"
  using fixed_dirs_always_exist [of "''/exist''" env0 "world0 7" None 4]
  by (simp add: W_OK_def)

subsection \<open>Directory listings\<close>

text \<open>
  Claim C6. \<open>readdir\<close> on \<^verbatim>\<open>/\<close> returns the listing \<^verbatim>\<open>['.', '..', 'exist']\<close> in every
  state and draws nothing. On every other path it returns a listing of three names,
  \<^verbatim>\<open>'.'\<close>, \<^verbatim>\<open>'..'\<close> and the \<^verbatim>\<open>str\<close> of one value \<open>r\<close> with \<open>0 \<le> r < 1\<close> drawn by
  one call on the random source.
\<close>

theorem readdir_listing:
  "readdir e ''/'' fh w = ([''.'', ''..'', ''exist''], w)
   \<and> (path \<noteq> ''/'' \<longrightarrow>
        readdir e path fh w =
          ([''.'', ''..'', str_of_float e (Fin (fst (py_random w)))], draw w)
        \<and> 0 \<le> fst (py_random w) \<and> fst (py_random w) < 1)"
proof -
  have root: "readdir e ''/'' fh w = ([''.'', ''..'', ''exist''], w)"
    by (simp add: readdir_def)
  have other: "path \<noteq> ''/'' \<longrightarrow>
        readdir e path fh w =
          ([''.'', ''..'', str_of_float e (Fin (fst (py_random w)))], draw w)"
    by (simp add: readdir_def py_random_def)
  from root other py_random_range [of w] show ?thesis
    by simp
qed

theorem readdir_listing_witness:
  "readdir env0 ''/'' 0 (world0 (2 ^ 52)) = ([''.'', ''..'', ''exist''], world0 (2 ^ 52))
   \<and> readdir env0 ''/exist'' 0 (world0 (2 ^ 52)) = ([''.'', ''..'', ''0.5''], draw (world0 (2 ^ 52)))
   \<and> readdir env0 ''/exist/0.5'' 0 (world0 0) = ([''.'', ''..'', ''0.0''], draw (world0 0))"
  using readdir_listing [of env0 0 "world0 (2 ^ 52)" "''/exist''"]
    readdir_listing [of env0 0 "world0 0" "''/exist/0.5''"]
  by (simp add: py_random_def raw_def world0_def env0_def str_sample_def)

subsection \<open>Attributes\<close>

text \<open>
  Claim C7. In the attributes of every successful \<open>getattr\<close>, \<open>st_uid\<close> is the real
  user id of the process and \<open>st_gid\<close> its real group id, \<open>st_mode\<close> is
  \<^verbatim>\<open>S_IFDIR | 0o775\<close> (the number 16893: the directory bit with the permission bits
  \<^verbatim>\<open>rwxrwxr-x\<close>), and \<open>st_nlink\<close> is 1; none of them depends on a draw.
\<close>

theorem getattr_fixed_fields:
  assumes "fst (getattr e path fh w) = Inr attr"
  shows "map_of attr ''st_uid'' = Some (PyInt (getuid e))
       \<and> map_of attr ''st_gid'' = Some (PyInt (getgid e))
       \<and> map_of attr ''st_mode'' = Some (PyInt (S_IFDIR OR 509))
       \<and> S_IFDIR OR 509 = 16893
       \<and> (S_IFDIR OR 509) AND 61440 = S_IFDIR
       \<and> (S_IFDIR OR 509) AND 4095 = 509
       \<and> map_of attr ''st_nlink'' = Some (PyInt 1)"
proof (cases "fst (p_exists e path w)")
  case True
  define w0 where "w0 = snd (p_exists e path w)"
  define w1 where "w1 = snd (p_timestamp e w0)"
  define w2 where "w2 = snd (p_timestamp e w1)"
  define w3 where "w3 = snd (p_timestamp e w2)"
  from True assms have attr: "attr =
     [(''st_atime'', PyFloat (fst (p_timestamp e w0))),
      (''st_ctime'', PyFloat (fst (p_timestamp e w1))),
      (''st_mtime'', PyFloat (fst (p_timestamp e w2))),
      (''st_gid'', PyInt (getgid e)),
      (''st_uid'', PyInt (getuid e)),
      (''st_mode'', PyInt (S_IFDIR OR 509)),
      (''st_nlink'', PyInt 1),
      (''st_size'', PyInt (fst (p_size w3)))]"
    by (simp add: getattr_result [OF w0_def w1_def w2_def w3_def])
  have m1: "S_IFDIR OR 509 = 16893"
    by (simp add: S_IFDIR_def)
  have m2: "(S_IFDIR OR 509) AND 61440 = S_IFDIR"
    by (simp add: S_IFDIR_def)
  have m3: "(S_IFDIR OR 509) AND 4095 = 509"
    by (simp add: S_IFDIR_def)
  have uid: "map_of attr ''st_uid'' = Some (PyInt (getuid e))"
    by (simp add: attr)
  have gid: "map_of attr ''st_gid'' = Some (PyInt (getgid e))"
    by (simp add: attr)
  have mode: "map_of attr ''st_mode'' = Some (PyInt (S_IFDIR OR 509))"
    by (simp add: attr)
  have nlink: "map_of attr ''st_nlink'' = Some (PyInt 1)"
    by (simp add: attr)
  from uid gid mode m1 m2 m3 nlink show ?thesis
    by (intro conjI)
next
  case False
  with assms show ?thesis
    by (simp add: getattr_result [OF refl refl refl refl])
qed

theorem getattr_fixed_fields_witness:
  "fst (getattr env0 ''/exist/0.5'' None (world_seq [2 ^ 52, 0, 0, 0, 4096])) =
     Inr [(''st_atime'', PyFloat (Fin 0)), (''st_ctime'', PyFloat (Fin 0)),
          (''st_mtime'', PyFloat (Fin 0)), (''st_gid'', PyInt 100), (''st_uid'', PyInt 1000),
          (''st_mode'', PyInt 16893), (''st_nlink'', PyInt 1), (''st_size'', PyInt 4096)]
   \<and> getuid env0 = 1000 \<and> getgid env0 = 100
   \<and> map_of [(''st_atime'', PyFloat (Fin 0)), (''st_ctime'', PyFloat (Fin 0)),
          (''st_mtime'', PyFloat (Fin 0)), (''st_gid'', PyInt 100), (''st_uid'', PyInt 1000),
          (''st_mode'', PyInt 16893), (''st_nlink'', PyInt 1), (''st_size'', PyInt 4096)]
        ''st_mode'' = Some (PyInt (S_IFDIR OR 509))"
proof -
  let ?attr = "[(''st_atime'', PyFloat (Fin 0)), (''st_ctime'', PyFloat (Fin 0)),
          (''st_mtime'', PyFloat (Fin 0)), (''st_gid'', PyInt 100), (''st_uid'', PyInt 1000),
          (''st_mode'', PyInt 16893), (''st_nlink'', PyInt 1), (''st_size'', PyInt 4096)]"
  have run: "fst (getattr env0 ''/exist/0.5'' None (world_seq [2 ^ 52, 0, 0, 0, 4096])) = Inr ?attr"
    by (simp add: run_defs)
  have ids: "getuid env0 = 1000 \<and> getgid env0 = 100"
    by (simp add: env0_def)
  from getattr_fixed_fields [OF run] have "map_of ?attr ''st_mode'' = Some (PyInt (S_IFDIR OR 509))"
    by (elim conjE)
  with run ids show ?thesis
    by (intro conjI) simp_all
qed

text \<open>
  Claim C8. \<open>getattr\<close> fails with \<open>ENOENT\<close> exactly when the existence test it makes
  on the path returns \<open>False\<close>. When the test returns \<open>True\<close>, \<open>getattr\<close> returns a
  dictionary with the eight keys \<open>st_atime\<close>, \<open>st_ctime\<close>, \<open>st_mtime\<close>, \<open>st_gid\<close>,
  \<open>st_uid\<close>, \<open>st_mode\<close>, \<open>st_nlink\<close>, \<open>st_size\<close> and no other.
\<close>

theorem getattr_notfound_iff:
  "(fst (getattr e path fh w) = Inl ENOENT \<longleftrightarrow> \<not> fst (p_exists e path w))
   \<and> (fst (p_exists e path w) \<longrightarrow>
        (\<exists>attr. fst (getattr e path fh w) = Inr attr
           \<and> map fst attr = [''st_atime'', ''st_ctime'', ''st_mtime'', ''st_gid'',
                ''st_uid'', ''st_mode'', ''st_nlink'', ''st_size'']
           \<and> dom (map_of attr) = {''st_atime'', ''st_ctime'', ''st_mtime'', ''st_gid'',
                ''st_uid'', ''st_mode'', ''st_nlink'', ''st_size''}))"
proof (cases "fst (p_exists e path w)")
  case True
  then show ?thesis
    by (simp add: getattr_result [OF refl refl refl refl] dom_map_of_conv_image_fst)
next
  case False
  then show ?thesis
    by (simp add: getattr_result [OF refl refl refl refl])
qed

theorem getattr_notfound_iff_witness:
  "\<not> fst (p_exists env0 ''/exist/2'' (world0 0))
   \<and> fst (getattr env0 ''/exist/2'' None (world0 0)) = Inl ENOENT
   \<and> \<not> fst (p_exists env0 ''/exist/0.5'' (world0 (2 ^ 52 + 1)))
   \<and> fst (getattr env0 ''/exist/0.5'' None (world0 (2 ^ 52 + 1))) = Inl ENOENT
   \<and> fst (p_exists env0 ''/exist/0.5'' (world0 0))
   \<and> fst (getattr env0 ''/exist/0.5'' None (world0 0)) \<noteq> Inl ENOENT"
proof -
  have a: "\<not> fst (p_exists env0 ''/exist/2'' (world0 0))"
    by (simp add: run_defs)
  have b: "\<not> fst (p_exists env0 ''/exist/0.5'' (world0 (2 ^ 52 + 1)))"
    by (simp add: run_defs)
  have c: "fst (p_exists env0 ''/exist/0.5'' (world0 0))"
    by (simp add: run_defs)
  from a getattr_notfound_iff [of env0 "''/exist/2''" None "world0 0"]
  have a': "fst (getattr env0 ''/exist/2'' None (world0 0)) = Inl ENOENT"
    by simp
  from b getattr_notfound_iff [of env0 "''/exist/0.5''" None "world0 (2 ^ 52 + 1)"]
  have b': "fst (getattr env0 ''/exist/0.5'' None (world0 (2 ^ 52 + 1))) = Inl ENOENT"
    by simp
  from c getattr_notfound_iff [of env0 "''/exist/0.5''" None "world0 0"]
  have c': "fst (getattr env0 ''/exist/0.5'' None (world0 0)) \<noteq> Inl ENOENT"
    by simp
  from a a' b b' c c' show ?thesis
    by simp
qed

subsection \<open>Operations without a handler\<close>

text \<open>
  Claim C9. Every operation other than \<open>access\<close>, \<open>getattr\<close>, \<open>readdir\<close> and
  \<open>statfs\<close> is one of the twenty-one operations \<open>create\<close>, \<open>write\<close>, \<open>read\<close>,
  \<open>open\<close>, \<open>truncate\<close>, \<open>rename\<close>, \<open>link\<close>, \<open>unlink\<close>, \<open>mkdir\<close>, \<open>rmdir\<close>,
  \<open>symlink\<close>, \<open>readlink\<close>, \<open>mknod\<close>, \<open>getxattr\<close>, \<open>listxattr\<close>, \<open>flush\<close>,
  \<open>fsync\<close>, \<open>release\<close>, \<open>chmod\<close>, \<open>chown\<close>, \<open>utimens\<close>; the class has no handler
  for it, and a request for it is answered with \<open>ENOSYS\<close> while the state stays as it
  was.
\<close>

theorem unsupported_operations:
  assumes "\<forall>path mode. req \<noteq> Access path mode" and "\<forall>path fh. req \<noteq> Getattr path fh"
    and "\<forall>path fh. req \<noteq> Readdir path fh" and "\<forall>path. req \<noteq> Statfs path"
  shows "req \<in> set [Create, Write, Read, Open, Truncate, Rename, Link, Unlink, Mkdir, Rmdir,
           Symlink, Readlink, Mknod, Getxattr, Listxattr, Flush, Fsync, Release, Chmod,
           Chown, Utimens]
       \<and> Exist_attr req = None
       \<and> fuse_call e req w = (Inl ENOSYS, w)"
  using assms by (cases req) (simp_all add: fuse_call_def)

theorem unsupported_operations_witness:
  "Exist_attr Write = None \<and> fuse_call env0 Write (world0 0) = (Inl ENOSYS, world0 0)
   \<and> Exist_attr Mkdir = None \<and> fuse_call env0 Mkdir (world0 0) = (Inl ENOSYS, world0 0)"
  using unsupported_operations [of Write env0 "world0 0"]
    unsupported_operations [of Mkdir env0 "world0 0"]
  by simp

subsection \<open>The random source as a frame\<close>

text \<open>
  Claim C10. The paths decided without randomness leave the random source as it was:
  \<open>_exists\<close> returns the state unchanged unless the path is \<^verbatim>\<open>/exist/<name>\<close> with a
  name that denotes a number in \<open>[0, 1]\<close>, and then the state is the one after exactly
  one call on the random source, which differs from the state before. \<open>access\<close>
  returns the state unchanged on \<^verbatim>\<open>/\<close> and \<^verbatim>\<open>/exist\<close>, on a mode with write intent
  and on a malformed path, and makes that one call exactly when it evaluates the
  existence of a well-formed entry.
\<close>

theorem random_source_frame:
  "snd (p_exists e path w) =
     (if take 7 path = ''/exist/''
         \<and> (\<exists>p. float_of_str e (drop 7 path) = Some (Fin p) \<and> 0 \<le> p \<and> p \<le> 1)
      then draw w else w)
   \<and> snd (access e path mode w) =
     (if mode AND W_OK = 0 \<and> take 7 path = ''/exist/''
         \<and> (\<exists>p. float_of_str e (drop 7 path) = Some (Fin p) \<and> 0 \<le> p \<and> p \<le> 1)
      then draw w else w)
   \<and> draw w \<noteq> w \<and> rnd_pos (draw w) = rnd_pos w + 1"
proof -
  let ?entry = "take 7 path = ''/exist/''
     \<and> (\<exists>p. float_of_str e (drop 7 path) = Some (Fin p) \<and> 0 \<le> p \<and> p \<le> 1)"
  have ex: "snd (p_exists e path w) = (if ?entry then draw w else w)"
  proof (cases ?entry)
    case True
    then obtain p where "take 7 path = ''/exist/''"
      and "float_of_str e (drop 7 path) = Some (Fin p)" and "0 \<le> p" and "p \<le> 1"
      by blast
    then have "p_exists e path w = (fst (py_random w) \<le> p, draw w)"
      by (rule p_exists_entry)
    then have "snd (p_exists e path w) = draw w"
      by simp
    then show ?thesis
      by (simp only: if_P [OF True])
  next
    case False
    then have "snd (p_exists e path w) = w"
      by (rule p_exists_no_entry)
    then show ?thesis
      by (simp only: if_not_P [OF False])
  qed
  have acc: "snd (access e path mode w) = (if mode AND W_OK = 0 \<and> ?entry then draw w else w)"
  proof (cases "path \<in> set [''/'', ''/exist'']")
    case True
    then have "take 7 path \<noteq> ''/exist/''"
      by auto
    with True show ?thesis
      by (simp add: access_def)
  next
    case False
    show ?thesis
    proof (cases "mode AND W_OK = 0")
      case True
      with False have "snd (access e path mode w) = snd (p_exists e path w)"
        by (simp add: access_def split_beta Let_def)
      with ex True show ?thesis
        by simp
    next
      case False
      with \<open>path \<notin> set [''/'', ''/exist'']\<close> show ?thesis
        by (simp add: access_def)
    qed
  qed
  have "rnd_pos (draw w) = rnd_pos w + 1"
    by (simp add: draw_def)
  with ex acc draw_changes [of w] show ?thesis
    by blast
qed

theorem random_source_frame_witness:
  "snd (p_exists env0 ''/'' (world0 3)) = world0 3
   \<and> snd (p_exists env0 ''/exist/abc'' (world0 3)) = world0 3
   \<and> snd (p_exists env0 ''/exist/2'' (world0 3)) = world0 3
   \<and> snd (p_exists env0 ''/exist/0.5'' (world0 3)) = draw (world0 3)
   \<and> snd (access env0 ''/exist'' 4 (world0 3)) = world0 3
   \<and> snd (access env0 ''/exist/0.5'' 2 (world0 3)) = world0 3
   \<and> snd (access env0 ''/exist/0.5'' 4 (world0 3)) = draw (world0 3)"
proof -
  have abc: "float_of_str env0 ''abc'' = None"
    by (simp add: env0_def float_sample_def)
  have two: "float_of_str env0 ''2'' = Some (Fin 2)"
    by (simp add: env0_def float_sample_def)
  have half: "float_of_str env0 ''0.5'' = Some (Fin (1 / 2))"
    by (simp add: env0_def float_sample_def)
  have entry: "\<exists>p. float_of_str env0 (drop 7 ''/exist/0.5'') = Some (Fin p) \<and> 0 \<le> p \<and> p \<le> 1"
    by (rule exI [of _ "1 / 2"]) (simp add: half)
  have a: "snd (p_exists env0 ''/'' (world0 3)) = world0 3"
    using random_source_frame [of env0 "''/''" "world0 3" 4] by simp
  have b: "snd (p_exists env0 ''/exist/abc'' (world0 3)) = world0 3"
    using random_source_frame [of env0 "''/exist/abc''" "world0 3" 4] by (simp add: abc)
  have c: "snd (p_exists env0 ''/exist/2'' (world0 3)) = world0 3"
    using random_source_frame [of env0 "''/exist/2''" "world0 3" 4] by (simp add: two)
  have d: "snd (p_exists env0 ''/exist/0.5'' (world0 3)) = draw (world0 3)
         \<and> snd (access env0 ''/exist/0.5'' 4 (world0 3)) = draw (world0 3)"
    using random_source_frame [of env0 "''/exist/0.5''" "world0 3" 4] entry
    by (simp add: W_OK_def)
  have f: "snd (access env0 ''/exist'' 4 (world0 3)) = world0 3"
    using random_source_frame [of env0 "''/exist''" "world0 3" 4] by simp
  have g: "snd (access env0 ''/exist/0.5'' 2 (world0 3)) = world0 3"
    using random_source_frame [of env0 "''/exist/0.5''" "world0 3" 2]
    by (simp add: W_OK_def)
  from a b c d f g show ?thesis
    by simp
qed

end
